theory Spec2Isabelle
  imports Main "HOL-Library.Word"
begin

section \<open>Strings and the library functions the program calls\<close>

text \<open>
  A Python string is a list of characters, here the code points below 256. The library
  functions below are the ones \<^verbatim>\<open>main.py\<close> calls on strings: \<^verbatim>\<open>str.strip\<close> (white space
  is what \<^verbatim>\<open>str.isspace\<close> accepts), \<^verbatim>\<open>str.split\<close>, \<^verbatim>\<open>"".join\<close>,
  \<^verbatim>\<open>os.path.join\<close> (POSIX), \<^verbatim>\<open>shlex.join\<close>, \<^verbatim>\<open>bytes.hex\<close> and the decimal
  \<^verbatim>\<open>str\<close> of an integer.
\<close>

definition apos :: string where
  "apos = [CHR 0x27]"

definition dquote :: string where
  "dquote = [CHR 0x22]"

definition newline :: string where
  "newline = [CHR 0x0A]"

definition isspace :: "char \<Rightarrow> bool" where
  "isspace c = (c \<in> set [CHR 0x09, CHR 0x0A, CHR 0x0B, CHR 0x0C, CHR 0x0D,
                           CHR 0x1C, CHR 0x1D, CHR 0x1E, CHR 0x1F, CHR 0x20,
                           CHR 0x85, CHR 0xA0])"

definition strip :: "string \<Rightarrow> string" where
  "strip s = rev (dropWhile isspace (rev (dropWhile isspace s)))"

text \<open>
  \<^verbatim>\<open>s.split(sep)\<close> for a non-empty separator: the pieces between the occurrences of
  \<open>sep\<close>, found from the left and not overlapping. (Python raises on an empty separator;
  the program passes the constants \<^verbatim>\<open>':'\<close> and \<^verbatim>\<open>"MAC: "\<close> only.)
\<close>

fun split_from :: "string \<Rightarrow> string \<Rightarrow> string \<Rightarrow> string list" where
  "split_from sep cur [] = [cur]"
| "split_from sep cur (c # cs) =
     (if sep \<noteq> [] \<and> take (length sep) (c # cs) = sep
      then cur # split_from sep [] (drop (length sep - 1) cs)
      else split_from sep (cur @ [c]) cs)"

definition str_split :: "string \<Rightarrow> string \<Rightarrow> string list" where
  "str_split s sep = split_from sep [] s"

definition str_join :: "string \<Rightarrow> string list \<Rightarrow> string" where
  "str_join sep parts = (case parts of [] \<Rightarrow> [] | p # ps \<Rightarrow> p @ concat (map (\<lambda>q. sep @ q) ps))"

fun contains :: "string \<Rightarrow> string \<Rightarrow> bool" where
  "contains pat [] = (pat = [])"
| "contains pat (c # cs) = (take (length pat) (c # cs) = pat \<or> contains pat cs)"

text \<open>\<^verbatim>\<open>posixpath.join(a, *p)\<close>: a component that starts with a slash restarts the path.\<close>

definition join2 :: "string \<Rightarrow> string \<Rightarrow> string" where
  "join2 path b =
     (if take 1 b = ''/'' then b
      else if path = [] \<or> last path = CHR ''/'' then path @ b
      else path @ ''/'' @ b)"

definition os_path_join :: "string \<Rightarrow> string list \<Rightarrow> string" where
  "os_path_join a p = foldl join2 a p"

text \<open>\<^verbatim>\<open>shlex.quote\<close> and \<^verbatim>\<open>shlex.join\<close>, used for the verbose display of a command.\<close>

definition shlex_safe :: "char \<Rightarrow> bool" where
  "shlex_safe c =
     (c \<in> set ''abcdefghijklmnopqrstuvwxyzABCDEFGHIJKLMNOPQRSTUVWXYZ0123456789_@%+=:,./-'')"

definition shlex_quote :: "string \<Rightarrow> string" where
  "shlex_quote s =
     (if s = [] then apos @ apos
      else if list_all shlex_safe s then s
      else apos @ concat (map (\<lambda>c. if [c] = apos then apos @ dquote @ apos @ dquote @ apos else [c]) s) @ apos)"

definition shlex_join :: "string list \<Rightarrow> string" where
  "shlex_join command_list = str_join '' '' (map shlex_quote command_list)"

fun nat_str :: "nat \<Rightarrow> string" where
  "nat_str n = (if n < 10 then [''0123456789'' ! n] else nat_str (n div 10) @ [''0123456789'' ! (n mod 10)])"

definition int_str :: "int \<Rightarrow> string" where
  "int_str i = (if i < 0 then ''-'' @ nat_str (nat (- i)) else nat_str (nat i))"

definition bool_str :: "bool \<Rightarrow> string" where
  "bool_str b = (if b then ''True'' else ''False'')"

definition byte_hex :: "8 word \<Rightarrow> string" where
  "byte_hex b = [''0123456789abcdef'' ! (unat b div 16), ''0123456789abcdef'' ! (unat b mod 16)]"

definition bytes_hex :: "8 word list \<Rightarrow> string" where
  "bytes_hex bs = concat (map byte_hex bs)"

text \<open>
  Text read from a process in text mode: a carriage return, alone or followed by a line
  feed, becomes a line feed.
\<close>

fun universal_newlines :: "string \<Rightarrow> string" where
  "universal_newlines [] = []"
| "universal_newlines [c] = (if c = CHR 0x0D then [CHR 0x0A] else [c])"
| "universal_newlines (c # d # cs) =
     (if c = CHR 0x0D \<and> d = CHR 0x0A then CHR 0x0A # universal_newlines cs
      else if c = CHR 0x0D then CHR 0x0A # universal_newlines (d # cs)
      else c # universal_newlines (d # cs))"

section \<open>Exceptions\<close>

text \<open>
  The exceptions the program can meet, each with its message (\<^verbatim>\<open>str(e)\<close>). The first
  four are subclasses of \<^verbatim>\<open>OSError\<close>, of which \<^verbatim>\<open>IOError\<close> is an alias; every
  constructor is a subclass of \<^verbatim>\<open>Exception\<close>.
\<close>

datatype py_error =
    FileNotFoundError string
  | IsADirectoryError string
  | NotADirectoryError string
  | FileExistsError string
  | IndexError string
  | OtherError string

fun str_of :: "py_error \<Rightarrow> string" where
  "str_of (FileNotFoundError m) = m"
| "str_of (IsADirectoryError m) = m"
| "str_of (NotADirectoryError m) = m"
| "str_of (FileExistsError m) = m"
| "str_of (IndexError m) = m"
| "str_of (OtherError m) = m"

fun is_FileNotFoundError :: "py_error \<Rightarrow> bool" where
  "is_FileNotFoundError (FileNotFoundError m) = True"
| "is_FileNotFoundError e = False"

fun is_OSError :: "py_error \<Rightarrow> bool" where
  "is_OSError (FileNotFoundError m) = True"
| "is_OSError (IsADirectoryError m) = True"
| "is_OSError (NotADirectoryError m) = True"
| "is_OSError (FileExistsError m) = True"
| "is_OSError e = False"

definition os_message :: "string \<Rightarrow> string \<Rightarrow> string" where
  "os_message reason path = reason @ '': '' @ apos @ path @ apos"

section \<open>The world: files, console, external processes\<close>

text \<open>
  The file system maps a path name, as the program writes it, to a directory or to a
  regular file. A regular file is held as the list of rows \<^verbatim>\<open>csv.reader\<close> yields from
  it (a blank line is the row \<open>[]\<close>); the file is taken to consist of complete records,
  as \<^verbatim>\<open>csv.writer\<close> leaves them, so that a row written at the end of the file is read
  back as one further row. The console is the list of the program's \<^verbatim>\<open>print\<close> calls.
  \<open>invoked\<close> lists the command lines handed to \<^verbatim>\<open>subprocess\<close>, in order.
\<close>

type_synonym row = "string list"

datatype node = Dir | File "row list"

type_synonym filesystem = "string \<Rightarrow> node option"

datatype line = Out string | Err string | Help

record world =
  files :: filesystem
  console :: "line list"
  invoked :: "string list list"
  drawn :: nat

text \<open>
  What the program cannot decide is the environment: the outcome of an external command
  (its exit code, standard output and standard error, and what it did to the files, or
  that the executable is missing, or that starting it failed otherwise) and the bytes of
  the system's random source.
\<close>

datatype proc = Exited int string string | NotFound | Failed string

record env =
  run_process :: "string list \<Rightarrow> filesystem \<Rightarrow> proc \<times> filesystem"
  entropy :: "nat \<Rightarrow> 8 word"

text \<open>
  A Python function is a state transformer that returns a value or raises, keeping the
  world as it was at the raise.
\<close>

type_synonym 'a io = "world \<Rightarrow> (py_error + 'a) \<times> world"

definition io_return :: "'a \<Rightarrow> 'a io" where
  "io_return x = (\<lambda>w. (Inr x, w))"

definition io_raise :: "py_error \<Rightarrow> 'a io" where
  "io_raise e = (\<lambda>w. (Inl e, w))"

definition io_bind :: "'a io \<Rightarrow> ('a \<Rightarrow> 'b io) \<Rightarrow> 'b io" where
  "io_bind m f = (\<lambda>w. case m w of (Inl e, w') \<Rightarrow> (Inl e, w') | (Inr x, w') \<Rightarrow> f x w')"

text \<open>
  \<^verbatim>\<open>try: m except ...\<close>: the handler gives \<open>None\<close> for an exception that no
  \<^verbatim>\<open>except\<close> clause matches, which then propagates.
\<close>

definition io_try :: "'a io \<Rightarrow> (py_error \<Rightarrow> 'a io option) \<Rightarrow> 'a io" where
  "io_try m h =
     (\<lambda>w. case m w of
        (Inr x, w') \<Rightarrow> (Inr x, w')
      | (Inl e, w') \<Rightarrow> (case h e of None \<Rightarrow> (Inl e, w') | Some k \<Rightarrow> k w'))"

definition io_when :: "bool \<Rightarrow> unit io \<Rightarrow> unit io" where
  "io_when b m = (if b then m else io_return ())"

definition print :: "string \<Rightarrow> unit io" where
  "print s = (\<lambda>w. (Inr (), w\<lparr>console := console w @ [Out s]\<rparr>))"

definition eprint :: "string \<Rightarrow> unit io" where
  "eprint s = (\<lambda>w. (Inr (), w\<lparr>console := console w @ [Err s]\<rparr>))"

subsection \<open>File operations\<close>

fun is_file :: "node option \<Rightarrow> bool" where
  "is_file (Some (File rs)) = True"
| "is_file x = False"

text \<open>The directories a path runs through: its proper prefixes that end before a slash.\<close>

fun ancestors_from :: "string \<Rightarrow> string \<Rightarrow> string list" where
  "ancestors_from pre [] = []"
| "ancestors_from pre (c # cs) =
     (if c = CHR ''/'' \<and> pre \<noteq> [] then [pre] else []) @ ancestors_from (pre @ [c]) cs"

definition ancestors :: "string \<Rightarrow> string list" where
  "ancestors p = ancestors_from [] p"

definition os_path_exists :: "string \<Rightarrow> bool io" where
  "os_path_exists p = (\<lambda>w. (Inr (files w p \<noteq> None), w))"

text \<open>\<^verbatim>\<open>os.makedirs(p, exist_ok=True)\<close>\<close>

definition os_makedirs :: "string \<Rightarrow> unit io" where
  "os_makedirs p =
     (\<lambda>w. if list_ex (\<lambda>q. is_file (files w q)) (ancestors p)
             then (Inl (NotADirectoryError (os_message ''[Errno 20] Not a directory'' p)), w)
           else if is_file (files w p)
             then (Inl (FileExistsError (os_message ''[Errno 17] File exists'' p)), w)
           else (Inr (), w\<lparr>files := foldl (\<lambda>f q. f(q \<mapsto> Dir)) (files w) (ancestors p @ [p])\<rparr>))"

text \<open>\<^verbatim>\<open>open(p, 'w')\<close> and the close that follows: the file is created or truncated.\<close>

definition open_w :: "string \<Rightarrow> unit io" where
  "open_w p =
     (\<lambda>w. if list_ex (\<lambda>q. is_file (files w q)) (ancestors p)
             then (Inl (NotADirectoryError (os_message ''[Errno 20] Not a directory'' p)), w)
           else if list_ex (\<lambda>q. files w q = None) (ancestors p)
             then (Inl (FileNotFoundError (os_message ''[Errno 2] No such file or directory'' p)), w)
           else if files w p = Some Dir
             then (Inl (IsADirectoryError (os_message ''[Errno 21] Is a directory'' p)), w)
           else (Inr (), w\<lparr>files := (files w)(p \<mapsto> File [])\<rparr>))"

text \<open>\<^verbatim>\<open>open(p, 'r+')\<close> with a \<^verbatim>\<open>csv.reader\<close> on it: the rows of the file.\<close>

definition open_rplus :: "string \<Rightarrow> row list io" where
  "open_rplus p =
     (\<lambda>w. case files w p of
        None \<Rightarrow> (Inl (FileNotFoundError (os_message ''[Errno 2] No such file or directory'' p)), w)
      | Some Dir \<Rightarrow> (Inl (IsADirectoryError (os_message ''[Errno 21] Is a directory'' p)), w)
      | Some (File rs) \<Rightarrow> (Inr rs, w))"

text \<open>
  \<^verbatim>\<open>csv.writer(f).writerow(r)\<close> on the file opened at \<open>p\<close>, whose position is at its
  end after the reader has gone through it. (The second case is for a path that holds no
  regular file; the program writes only to a file it has just opened.)
\<close>

definition writerow :: "string \<Rightarrow> row \<Rightarrow> unit io" where
  "writerow p r =
     (\<lambda>w. case files w p of
        Some (File rs) \<Rightarrow> (Inr (), w\<lparr>files := (files w)(p \<mapsto> File (rs @ [r]))\<rparr>)
      | _ \<Rightarrow> (Inl (OtherError ''I/O operation on closed file''), w))"

section \<open>The program\<close>

definition KEY_SIZE_BYTES :: nat where
  "KEY_SIZE_BYTES = 16"

definition PYTHON :: string where
  "PYTHON = ''python3''"

definition ESP_CMD :: "string list" where
  "ESP_CMD = [PYTHON, ''-m'', ''esptool'']"

definition files_to_create :: "string list" where
  "files_to_create = [''device.pem.crt'', ''private.pem.key'', ''nvs.csv'']"

subsection \<open>\<^verbatim>\<open>execute_command\<close>\<close>

text \<open>
  \<^verbatim>\<open>subprocess.run(command_list, capture_output=True, text=True, check=False)\<close>: the
  command line is recorded, the environment gives the outcome. A missing executable
  raises \<^verbatim>\<open>FileNotFoundError\<close>. In \<^verbatim>\<open>execute_command\<close>, the fallback for a Python
  without \<^verbatim>\<open>shlex.join\<close> is left out: the annotation \<^verbatim>\<open>list[str]\<close> further down in the
  file needs a Python that has it.
\<close>

definition subprocess_run :: "env \<Rightarrow> string list \<Rightarrow> (int \<times> string \<times> string) io" where
  "subprocess_run ev cmd =
     (\<lambda>w. let w1 = w\<lparr>invoked := invoked w @ [cmd]\<rparr> in
        case run_process ev cmd (files w) of
          (Exited rc out err, fs') \<Rightarrow>
            (Inr (rc, universal_newlines out, universal_newlines err), w1\<lparr>files := fs'\<rparr>)
        | (NotFound, fs') \<Rightarrow>
            (Inl (FileNotFoundError (os_message ''[Errno 2] No such file or directory'' (hd cmd))), w1)
        | (Failed m, fs') \<Rightarrow> (Inl (OtherError m), w1))"

definition execute_command :: "env \<Rightarrow> string list \<Rightarrow> bool \<Rightarrow> int io" where
  "execute_command ev command_list verbose =
     (if command_list = []
      then io_bind (eprint ''Error: No command provided.'') (\<lambda>_. io_return 1)
      else
        io_bind (io_when verbose (print (''[*] Executing: '' @ shlex_join command_list))) (\<lambda>_.
        io_try
          (io_bind (subprocess_run ev command_list) (\<lambda>(returncode, stdout, stderr).
           io_bind (io_when (stdout \<noteq> [])
                      (io_bind (print (newline @ ''--- Standard Output ---'')) (\<lambda>_.
                       print (strip stdout)))) (\<lambda>_.
           io_bind (io_when (stderr \<noteq> [])
                      (io_bind (eprint (newline @ ''--- Standard Error ---'')) (\<lambda>_.
                       eprint (strip stderr)))) (\<lambda>_.
           io_bind (io_when verbose
                      (print (newline @ ''[*] Command finished with exit code: '' @ int_str returncode))) (\<lambda>_.
           io_return returncode)))))
          (\<lambda>e. if is_FileNotFoundError e
               then Some (io_bind (eprint (''Error: Command not found: '' @ apos @ hd command_list @ apos)) (\<lambda>_.
                          io_return 1))
               else Some (io_bind (eprint (''An unexpected error occurred: '' @ str_of e)) (\<lambda>_.
                          io_return 1)))))"

subsection \<open>\<^verbatim>\<open>generate_aes_key\<close>, \<^verbatim>\<open>put_hardware_version\<close>, \<^verbatim>\<open>put_aes_key\<close>\<close>

text \<open>\<^verbatim>\<open>secrets.token_bytes(n)\<close>: the next \<open>n\<close> bytes of the random source.\<close>

definition generate_aes_key :: "env \<Rightarrow> nat \<Rightarrow> 8 word list io" where
  "generate_aes_key ev key_length_bytes =
     (\<lambda>w. (Inr (map (entropy ev) [drawn w ..< drawn w + key_length_bytes]),
            w\<lparr>drawn := drawn w + key_length_bytes\<rparr>))"

text \<open>
  The loop \<^verbatim>\<open>for row in reader: if row[0] == key: ... return\<close>. \<open>Inr True\<close>: a row with
  the key was met and the function returns; \<open>Inr False\<close>: the rows are exhausted;
  \<open>Inl\<close>: \<^verbatim>\<open>row[0]\<close> raised on a row without columns.
\<close>

fun scan_rows :: "string \<Rightarrow> row list \<Rightarrow> py_error + bool" where
  "scan_rows key [] = Inr False"
| "scan_rows key (r # rs) =
     (case r of
        [] \<Rightarrow> Inl (IndexError ''list index out of range'')
      | c # cols \<Rightarrow> if c = key then Inr True else scan_rows key rs)"

definition io_of :: "py_error + 'a \<Rightarrow> 'a io" where
  "io_of r = (case r of Inl e \<Rightarrow> io_raise e | Inr x \<Rightarrow> io_return x)"

definition put_hardware_version :: "string \<Rightarrow> string \<Rightarrow> unit io" where
  "put_hardware_version filepath version =
     io_try
       (io_bind (open_rplus filepath) (\<lambda>reader.
        io_bind (io_of (scan_rows ''hv'' reader)) (\<lambda>found.
          if found then print ''Hardware version key already exists!''
          else writerow filepath [''hv'', ''data'', ''string'', version])))
       (\<lambda>e. if is_OSError e
            then Some (eprint (''Error: Could not write to CSV file '' @ apos @ filepath @ apos
                               @ ''. Reason: '' @ str_of e))
            else Some (eprint (''An unexpected error occurred: '' @ str_of e)))"

definition put_aes_key :: "env \<Rightarrow> string \<Rightarrow> unit io" where
  "put_aes_key ev filepath =
     io_try
       (io_bind (open_rplus filepath) (\<lambda>reader.
        io_bind (io_of (scan_rows ''aes_key'' reader)) (\<lambda>found.
          if found then print ''AES key already exists!''
          else
            io_bind (generate_aes_key ev KEY_SIZE_BYTES) (\<lambda>key.
            io_bind (print (''AES Key: '' @ bytes_hex key)) (\<lambda>_.
            writerow filepath [''aes_key'', ''data'', ''string'', bytes_hex key])))))
       (\<lambda>e. if is_OSError e
            then Some (eprint (''Error: Could not write to CSV file '' @ apos @ filepath @ apos
                               @ ''. Reason: '' @ str_of e))
            else Some (eprint (''An unexpected error occurred: '' @ str_of e)))"

subsection \<open>\<^verbatim>\<open>generate_cert_bin\<close> and \<^verbatim>\<open>flash_nvs\<close>\<close>

definition mac_of :: "string \<Rightarrow> string" where
  "mac_of device_mac = str_join [] (str_split (strip device_mac) '':'')"

definition generate_cert_bin :: "env \<Rightarrow> string \<Rightarrow> string \<Rightarrow> int io" where
  "generate_cert_bin ev device_mac version =
     io_try
       (let mac = mac_of device_mac;
            mac_path = os_path_join ''certs'' [mac];
            csv_path = os_path_join mac_path [''nvs.csv'']
        in
        io_bind (print (''csv: '' @ csv_path)) (\<lambda>_.
        io_bind (os_path_exists csv_path) (\<lambda>found.
        io_bind (if \<not> found then io_raise (FileNotFoundError ''csv file not found'') else io_return ()) (\<lambda>_.
        io_bind (put_aes_key ev csv_path) (\<lambda>_.
        io_bind (put_hardware_version csv_path version) (\<lambda>_.
        io_bind (print (''Generating certificate for '' @ mac_path @ ''...'')) (\<lambda>_.
        execute_command ev
          [PYTHON, ''cert_gen.py'', ''generate'', csv_path, os_path_join mac_path [''certs.bin''], ''16384'']
          True)))))))
       (\<lambda>e. if is_FileNotFoundError e
            then Some (io_bind (print (''Error: '' @ str_of e)) (\<lambda>_.
                       io_bind (print ''Suggestion: Generate device folder first'') (\<lambda>_.
                       io_bind (print ''Commands:'') (\<lambda>_.
                       io_bind (print ''- (auto-detect) python main.py --port <port> -g'') (\<lambda>_.
                       io_bind (print ''- (manual)      python main.py --mac <mac> -g'') (\<lambda>_.
                       io_return 1))))))
            else None)"

definition flash_nvs :: "env \<Rightarrow> string \<Rightarrow> string \<Rightarrow> int io" where
  "flash_nvs ev device_mac port =
     io_try
       (let mac = mac_of device_mac;
            bin_file = os_path_join ''certs'' [mac, ''certs.bin'']
        in
        io_bind (os_path_exists bin_file) (\<lambda>found.
        io_bind (if \<not> found
                 then io_raise (FileNotFoundError (''Binary file '' @ apos @ bin_file @ apos @ '' not found.''))
                 else io_return ()) (\<lambda>_.
        io_bind (print (''Flashing '' @ apos @ bin_file @ apos @ '' to offset 0x9000 on port '' @ port @ ''...'')) (\<lambda>_.
        execute_command ev
          (ESP_CMD @ [''--port'', port, ''--baud'', ''115200'', ''write_flash'', ''0x9000'', bin_file])
          True))))
       (\<lambda>e. if is_FileNotFoundError e
            then Some (io_bind (print (''Error: '' @ str_of e)) (\<lambda>_. io_return 1))
            else None)"

subsection \<open>\<^verbatim>\<open>create_folder_and_files\<close>\<close>

text \<open>One round of the loop over \<^verbatim>\<open>file_names\<close>; the result is the new \<^verbatim>\<open>all_files_created\<close>.\<close>

definition create_file :: "string \<Rightarrow> string \<Rightarrow> bool \<Rightarrow> bool io" where
  "create_file folder_path filename all_files_created =
     (let file_path = os_path_join folder_path [filename] in
      io_try
        (io_bind (open_w file_path) (\<lambda>_.
         io_bind (print (''  - Created empty file: '' @ apos @ file_path @ apos)) (\<lambda>_.
         io_return all_files_created)))
        (\<lambda>e. if is_OSError e
             then Some (io_bind (eprint (''  - Error: Could not create file '' @ apos @ file_path @ apos
                                         @ ''. Reason: '' @ str_of e)) (\<lambda>_.
                        io_return False))
             else Some (io_bind (eprint (''  - An unexpected error occurred creating file '' @ apos @ file_path
                                         @ apos @ '': '' @ str_of e)) (\<lambda>_.
                        io_return False))))"

fun create_files :: "string \<Rightarrow> string list \<Rightarrow> bool \<Rightarrow> bool io" where
  "create_files folder_path [] all_files_created w = (Inr all_files_created, w)"
| "create_files folder_path (filename # file_names) all_files_created w =
     (case create_file folder_path filename all_files_created w of
        (Inl e, w') \<Rightarrow> (Inl e, w')
      | (Inr created, w') \<Rightarrow> create_files folder_path file_names created w')"

text \<open>\<^verbatim>\<open>open(p, 'w')\<close>, \<^verbatim>\<open>csv.writer(f).writerows(rs)\<close> and the close.\<close>

definition write_rows :: "string \<Rightarrow> row list \<Rightarrow> unit io" where
  "write_rows p rs = io_bind (open_w p) (\<lambda>_. \<lambda>w. (Inr (), w\<lparr>files := (files w)(p \<mapsto> File rs)\<rparr>))"

definition nvs_rows :: "string \<Rightarrow> row list" where
  "nvs_rows folder_path =
     (let priv_key_path = os_path_join folder_path [''private.pem.key''];
          cert_path = os_path_join folder_path [''device.pem.crt'']
      in [[''key'', ''type'', ''encoding'', ''value''],
          [''certs'', ''namespace'', [], []],
          [''priv_key'', ''file'', ''string'', priv_key_path],
          [''certificate'', ''file'', ''string'', cert_path]])"

definition truthy :: "string option \<Rightarrow> bool" where
  "truthy x = (case x of None \<Rightarrow> False | Some s \<Rightarrow> s \<noteq> [])"

text \<open>The string of an optional argument, read only where \<open>truthy\<close> holds of it.\<close>

definition val :: "string option \<Rightarrow> string" where
  "val x = (case x of None \<Rightarrow> [] | Some s \<Rightarrow> s)"

definition create_folder_and_files :: "string \<Rightarrow> string list \<Rightarrow> string option \<Rightarrow> bool io" where
  "create_folder_and_files device_mac file_names target_file_for_content =
     (let mac = mac_of device_mac;
          folder_path = os_path_join ''certs'' [mac]
      in
      io_bind
        (io_try
           (io_bind (os_makedirs folder_path) (\<lambda>_.
            io_bind (print (''Successfully ensured folder exists: '' @ apos @ folder_path @ apos)) (\<lambda>_.
            io_return True)))
           (\<lambda>e. if is_OSError e
                then Some (io_bind (eprint (''Error: Could not create folder '' @ apos @ folder_path @ apos
                                            @ ''. Reason: '' @ str_of e)) (\<lambda>_.
                           io_return False))
                else Some (io_bind (eprint (''An unexpected error occurred creating folder '' @ apos
                                            @ folder_path @ apos @ '': '' @ str_of e)) (\<lambda>_.
                           io_return False))))
        (\<lambda>folder_ok.
           if \<not> folder_ok then io_return False
           else
             io_bind (create_files folder_path file_names True) (\<lambda>all_files_created.
             io_bind (io_when (truthy target_file_for_content \<and> val target_file_for_content \<notin> set file_names)
                        (eprint (''Warning: Target file '' @ apos @ val target_file_for_content @ apos
                                 @ '' for content was specified but is not in the list of files to create.''))) (\<lambda>_.
             io_bind (io_when (truthy target_file_for_content)
                        (io_bind (write_rows (os_path_join folder_path [val target_file_for_content])
                                    (nvs_rows folder_path)) (\<lambda>_.
                         print (''Written '' @ apos @ ''nvs.csv'' @ apos)))) (\<lambda>_.
             io_return all_files_created)))))"

subsection \<open>\<^verbatim>\<open>get_mac_address\<close>\<close>

text \<open>
  \<^verbatim>\<open>subprocess.Popen(cmd, stdout=PIPE)\<close> followed by \<^verbatim>\<open>wait\<close>: the exit code and the
  standard output of the process (its standard error goes to the terminal, past the
  program). A missing executable raises at the \<^verbatim>\<open>Popen\<close>. The filter \<^verbatim>\<open>grep\<close> is
  taken to be installed, and the time limit of \<^verbatim>\<open>communicate\<close> not to be reached.
\<close>

definition popen :: "env \<Rightarrow> string list \<Rightarrow> (int \<times> string) io" where
  "popen ev cmd =
     (\<lambda>w. let w1 = w\<lparr>invoked := invoked w @ [cmd]\<rparr> in
        case run_process ev cmd (files w) of
          (Exited rc out err, fs') \<Rightarrow> (Inr (rc, out), w1\<lparr>files := fs'\<rparr>)
        | (NotFound, fs') \<Rightarrow>
            (Inl (FileNotFoundError (os_message ''[Errno 2] No such file or directory'' (hd cmd))), w1)
        | (Failed m, fs') \<Rightarrow> (Inl (OtherError m), w1))"

text \<open>
  The filter \<^verbatim>\<open>grep pat\<close> on a text: its lines that contain \<open>pat\<close>, each ended by a
  newline. Python reads the filter's output in text mode.
\<close>

definition text_lines :: "string \<Rightarrow> string list" where
  "text_lines txt = (let ls = str_split txt newline in if last ls = [] then butlast ls else ls)"

definition grep :: "string \<Rightarrow> string \<Rightarrow> string" where
  "grep pat txt = concat (map (\<lambda>l. l @ newline) (filter (contains pat) (text_lines txt)))"

definition popen_grep :: "string \<Rightarrow> string \<Rightarrow> string io" where
  "popen_grep pat input =
     (\<lambda>w. (Inr (universal_newlines (grep pat input)), w\<lparr>invoked := invoked w @ [[''grep'', pat]]\<rparr>))"

text \<open>\<^verbatim>\<open>xs[i]\<close> for an index \<open>i \<ge> 0\<close>.\<close>

definition py_index :: "'a list \<Rightarrow> nat \<Rightarrow> 'a io" where
  "py_index xs i = (if i < length xs then io_return (xs ! i) else io_raise (IndexError ''list index out of range''))"

definition get_mac_address :: "env \<Rightarrow> string \<Rightarrow> string option io" where
  "get_mac_address ev port =
     (let cmd = ESP_CMD @ [''--port'', port, ''read_mac''] in
      io_bind (popen ev cmd) (\<lambda>(p1_returncode, p1_stdout).
      io_bind (popen_grep ''MAC:'' p1_stdout) (\<lambda>stdout.
        if p1_returncode = 0 then
          if stdout \<noteq> [] then
            io_bind (py_index (str_split stdout ''MAC: '') 1) (\<lambda>piece.
            io_return (Some (strip piece)))
          else
            io_bind (print ''NO MAC Found!'') (\<lambda>_. io_return None)
        else io_return None)))"

subsection \<open>\<^verbatim>\<open>main\<close>\<close>

record args =
  args_port :: "string option"
  args_mac :: "string option"
  args_hv :: "string option"
  args_generate :: bool

definition main :: "env \<Rightarrow> args \<Rightarrow> unit io" where
  "main ev a =
     io_bind (print ''--- Arguments ---'') (\<lambda>_.
     io_bind (print (''Port:    '' @ (case args_port a of None \<Rightarrow> ''Not specified'' | Some p \<Rightarrow> p))) (\<lambda>_.
     io_bind (print (''MAC:     '' @ (case args_mac a of None \<Rightarrow> ''Not specified'' | Some m \<Rightarrow> m))) (\<lambda>_.
     io_bind (print (''Generate: '' @ bool_str (args_generate a))) (\<lambda>_.
     io_bind (print ''------------------------'') (\<lambda>_.
     if truthy (args_port a) \<and> truthy (args_mac a) \<and> truthy (args_hv a) then
       io_bind (generate_cert_bin ev (val (args_mac a)) (val (args_hv a))) (\<lambda>code.
       io_bind (print []) (\<lambda>_.
       io_when (code = 0)
         (io_bind (flash_nvs ev (val (args_mac a)) (val (args_port a))) (\<lambda>_. io_return ()))))
     else if truthy (args_port a) \<and> truthy (args_hv a) then
       io_bind (get_mac_address ev (val (args_port a))) (\<lambda>mac.
         if truthy mac then
           io_bind (print (''MAC: '' @ val mac)) (\<lambda>_.
           io_bind (generate_cert_bin ev (val mac) (val (args_hv a))) (\<lambda>code.
           io_when (code = 0)
             (io_bind (flash_nvs ev (val mac) (val (args_port a))) (\<lambda>_. io_return ()))))
         else print ''Device Not Connected!'')
     else if args_generate a \<and> truthy (args_mac a) then
       io_bind (create_folder_and_files (val (args_mac a)) files_to_create (Some (last files_to_create)))
         (\<lambda>_. io_return ())
     else if args_generate a \<and> truthy (args_port a) then
       io_bind (get_mac_address ev (val (args_port a))) (\<lambda>mac.
         if truthy mac then
           io_bind (print (''MAC: '' @ val mac)) (\<lambda>_.
           io_bind (create_folder_and_files (val mac) files_to_create (Some (last files_to_create)))
             (\<lambda>_. io_return ()))
         else print ''Device Not Connected!'')
     else if truthy (args_port a) then
       io_bind (get_mac_address ev (val (args_port a))) (\<lambda>_. io_return ())
     else (\<lambda>w. (Inr (), w\<lparr>console := console w @ [Help]\<rparr>)))))))"

section \<open>Notions used in the statements\<close>

text \<open>A row whose first column equals the key.\<close>

definition has_key :: "string \<Rightarrow> row list \<Rightarrow> bool" where
  "has_key key rs = list_ex (\<lambda>r. r \<noteq> [] \<and> hd r = key) rs"

text \<open>
  The paths and command lines \<^verbatim>\<open>generate_cert_bin\<close> and \<^verbatim>\<open>flash_nvs\<close> build for a
  device: the store \<^verbatim>\<open>certs/<mac>/nvs.csv\<close>, the blob \<^verbatim>\<open>certs/<mac>/certs.bin\<close>, the
  generator's and the flasher's command line.
\<close>

definition store_path :: "string \<Rightarrow> string" where
  "store_path device_mac = os_path_join (os_path_join ''certs'' [mac_of device_mac]) [''nvs.csv'']"

definition blob_path :: "string \<Rightarrow> string" where
  "blob_path device_mac = os_path_join ''certs'' [mac_of device_mac, ''certs.bin'']"

definition generator_cmd :: "string \<Rightarrow> string list" where
  "generator_cmd device_mac =
     [''python3'', ''cert_gen.py'', ''generate'', store_path device_mac, blob_path device_mac, ''16384'']"


text \<open>The world after some more lines on the console.\<close>

definition say :: "line list \<Rightarrow> world \<Rightarrow> world" where
  "say ls w = w\<lparr>console := console w @ ls\<rparr>"

text \<open>What \<^verbatim>\<open>execute_command\<close> prints before and after a process that ran.\<close>

definition started :: "string list \<Rightarrow> bool \<Rightarrow> world \<Rightarrow> world" where
  "started cmd verbose w =
     w\<lparr>console := console w @ (if verbose then [Out (''[*] Executing: '' @ shlex_join cmd)] else []),
       invoked := invoked w @ [cmd]\<rparr>"

definition exit_report :: "bool \<Rightarrow> int \<Rightarrow> string \<Rightarrow> string \<Rightarrow> line list" where
  "exit_report verbose rc out err =
     (if out \<noteq> [] then [Out (newline @ ''--- Standard Output ---''), Out (strip out)] else []) @
     (if err \<noteq> [] then [Err (newline @ ''--- Standard Error ---''), Err (strip err)] else []) @
     (if verbose then [Out (newline @ ''[*] Command finished with exit code: '' @ int_str rc)] else [])"

text \<open>What \<^verbatim>\<open>generate_cert_bin\<close> prints when the store is missing.\<close>

definition missing_store_report :: "string \<Rightarrow> line list" where
  "missing_store_report device_mac =
     [Out (''csv: '' @ store_path device_mac),
      Out ''Error: csv file not found'',
      Out ''Suggestion: Generate device folder first'',
      Out ''Commands:'',
      Out ''- (auto-detect) python main.py --port <port> -g'',
      Out ''- (manual)      python main.py --mac <mac> -g'']"

text \<open>Concrete worlds and environments for the examples.\<close>

definition world_of :: "(string \<times> node) list \<Rightarrow> world" where
  "world_of nodes = \<lparr>files = map_of nodes, console = [], invoked = [], drawn = 0\<rparr>"

definition env_const :: "proc \<Rightarrow> env" where
  "env_const outcome = \<lparr>run_process = (\<lambda>cmd fs. (outcome, fs)), entropy = (\<lambda>i. 0)\<rparr>"

definition scaffold_rows :: "row list" where
  "scaffold_rows =
     [[''key'', ''type'', ''encoding'', ''value''],
      [''certs'', ''namespace'', [], []],
      [''priv_key'', ''file'', ''string'', ''certs/AABBCCDDEEFF/private.pem.key''],
      [''certificate'', ''file'', ''string'', ''certs/AABBCCDDEEFF/device.pem.crt'']]"

definition provisioned_rows :: "row list" where
  "provisioned_rows =
     scaffold_rows @
     [[''aes_key'', ''data'', ''string'', ''000102030405060708090a0b0c0d0e0f''],
      [''hv'', ''data'', ''string'', ''1.0'']]"

definition world_with_store :: "row list \<Rightarrow> world" where
  "world_with_store rs =
     world_of [(''certs'', Dir), (''certs/AABBCCDDEEFF'', Dir), (''certs/AABBCCDDEEFF/nvs.csv'', File rs)]"

text \<open>What \<^verbatim>\<open>main\<close> prints first.\<close>

definition banner :: "args \<Rightarrow> line list" where
  "banner a =
     [Out ''--- Arguments ---'',
      Out (''Port:    '' @ (case args_port a of None \<Rightarrow> ''Not specified'' | Some p \<Rightarrow> p)),
      Out (''MAC:     '' @ (case args_mac a of None \<Rightarrow> ''Not specified'' | Some m \<Rightarrow> m)),
      Out (''Generate: '' @ bool_str (args_generate a)),
      Out ''------------------------'']"

text \<open>
  The dispatch of \<^verbatim>\<open>main\<close>, stated a second time for comparison with its chain of
  conditions: \<open>selected\<close> is the table of the sixteen combinations of the flags
  \<^verbatim>\<open>--port\<close>, \<^verbatim>\<open>--mac\<close>, \<^verbatim>\<open>--hv\<close> and \<^verbatim>\<open>-g\<close> (a flag given with the empty string
  counts as absent), and \<open>perform\<close> is the body of each of the six branches.
\<close>

datatype branch =
    Generate_flash_explicit | Generate_flash_auto | Scaffold_explicit | Scaffold_auto
  | Read_mac_only | Print_help

fun selected :: "bool \<Rightarrow> bool \<Rightarrow> bool \<Rightarrow> bool \<Rightarrow> branch" where
  "selected True  True  True  True  = Generate_flash_explicit"
| "selected True  True  True  False = Generate_flash_explicit"
| "selected True  False True  True  = Generate_flash_auto"
| "selected True  False True  False = Generate_flash_auto"
| "selected True  True  False True  = Scaffold_explicit"
| "selected False True  True  True  = Scaffold_explicit"
| "selected False True  False True  = Scaffold_explicit"
| "selected True  False False True  = Scaffold_auto"
| "selected True  True  False False = Read_mac_only"
| "selected True  False False False = Read_mac_only"
| "selected False True  True  False = Print_help"
| "selected False True  False False = Print_help"
| "selected False False True  True  = Print_help"
| "selected False False True  False = Print_help"
| "selected False False False True  = Print_help"
| "selected False False False False = Print_help"

definition perform :: "env \<Rightarrow> args \<Rightarrow> branch \<Rightarrow> unit io" where
  "perform ev a b =
     (case b of
        Generate_flash_explicit \<Rightarrow>
          io_bind (generate_cert_bin ev (val (args_mac a)) (val (args_hv a))) (\<lambda>code.
          io_bind (print []) (\<lambda>_.
          io_when (code = 0)
            (io_bind (flash_nvs ev (val (args_mac a)) (val (args_port a))) (\<lambda>_. io_return ()))))
      | Generate_flash_auto \<Rightarrow>
          io_bind (get_mac_address ev (val (args_port a))) (\<lambda>mac.
            if truthy mac then
              io_bind (print (''MAC: '' @ val mac)) (\<lambda>_.
              io_bind (generate_cert_bin ev (val mac) (val (args_hv a))) (\<lambda>code.
              io_when (code = 0)
                (io_bind (flash_nvs ev (val mac) (val (args_port a))) (\<lambda>_. io_return ()))))
            else print ''Device Not Connected!'')
      | Scaffold_explicit \<Rightarrow>
          io_bind (create_folder_and_files (val (args_mac a)) files_to_create (Some ''nvs.csv''))
            (\<lambda>_. io_return ())
      | Scaffold_auto \<Rightarrow>
          io_bind (get_mac_address ev (val (args_port a))) (\<lambda>mac.
            if truthy mac then
              io_bind (print (''MAC: '' @ val mac)) (\<lambda>_.
              io_bind (create_folder_and_files (val mac) files_to_create (Some ''nvs.csv''))
                (\<lambda>_. io_return ()))
            else print ''Device Not Connected!'')
      | Read_mac_only \<Rightarrow> io_bind (get_mac_address ev (val (args_port a))) (\<lambda>_. io_return ())
      | Print_help \<Rightarrow> (\<lambda>w. (Inr (), say [Help] w)))"

text \<open>
  An environment in which the generator writes the blob and exits with 0, and every other
  command prints a MAC line and exits with 0; the random bytes are 0, 1, 2, ...
\<close>

definition env_tools :: env where
  "env_tools =
     \<lparr>run_process = (\<lambda>cmd fs.
        if take 3 cmd = [''python3'', ''cert_gen.py'', ''generate''] \<and> length cmd = 6
        then (Exited 0 [] [], fs(cmd ! 4 \<mapsto> File []))
        else (Exited 0 ''MAC: aa:bb:cc:dd:ee:ff'' [], fs)),
      entropy = (\<lambda>i. of_nat i)\<rparr>"

text \<open>The device's folder, and the scaffolding as \<^verbatim>\<open>main\<close> calls it.\<close>

definition device_dir :: "string \<Rightarrow> string" where
  "device_dir device_mac = os_path_join ''certs'' [mac_of device_mac]"

definition scaffold :: "string \<Rightarrow> bool io" where
  "scaffold device_mac = create_folder_and_files device_mac files_to_create (Some (last files_to_create))"

text \<open>The file system after the scaffolding has created everything.\<close>

definition scaffolded :: "string \<Rightarrow> filesystem \<Rightarrow> filesystem" where
  "scaffolded dir fs =
     (\<lambda>k. if k = os_path_join dir [''nvs.csv''] then Some (File (nvs_rows dir))
          else if k = os_path_join dir [''private.pem.key''] \<or> k = os_path_join dir [''device.pem.crt'']
            then Some (File [])
          else if k \<in> set (ancestors dir @ [dir]) then Some Dir
          else fs k)"

section \<open>Sequencing\<close>

lemmas io_defs = io_try_def io_bind_def io_of_def io_raise_def io_return_def io_when_def
  print_def eprint_def




section \<open>The row insertions\<close>

lemma scan_rows_False: "scan_rows key rs = Inr False \<longleftrightarrow> (\<forall>r\<in>set rs. r \<noteq> [] \<and> hd r \<noteq> key)"
  by (induction rs) (auto split: list.splits)

lemma scan_rows_has_key: "has_key key rs \<Longrightarrow> scan_rows key rs \<noteq> Inr False"
  by (auto simp: scan_rows_False has_key_def list_ex_iff)


lemma scan_rows_Inl: "scan_rows key rs = Inl e \<Longrightarrow> e = IndexError ''list index out of range''"
  by (induction rs) (auto split: list.splits if_splits)

lemma scan_rows_blank:
  "\<not> has_key key rs \<Longrightarrow> scan_rows key (rs @ [] # rs') = Inl (IndexError ''list index out of range'')"
  by (induction rs) (auto simp: has_key_def split: list.splits)


lemma put_hardware_version_file:
  "files w p = Some (File rs) \<Longrightarrow> put_hardware_version p v w =
   (case scan_rows ''hv'' rs of
      Inl e \<Rightarrow> (Inr (), say [Err (''An unexpected error occurred: '' @ str_of e)] w)
    | Inr found \<Rightarrow>
        if found then (Inr (), say [Out ''Hardware version key already exists!''] w)
        else (Inr (), w\<lparr>files := (files w)(p \<mapsto> File (rs @ [[''hv'', ''data'', ''string'', v]]))\<rparr>))"
  by (auto simp: put_hardware_version_def io_defs open_rplus_def writerow_def say_def
      split: sum.splits dest: scan_rows_Inl)

lemma put_aes_key_file:
  "files w p = Some (File rs) \<Longrightarrow> put_aes_key ev p w =
   (case scan_rows ''aes_key'' rs of
      Inl e \<Rightarrow> (Inr (), say [Err (''An unexpected error occurred: '' @ str_of e)] w)
    | Inr found \<Rightarrow>
        if found then (Inr (), say [Out ''AES key already exists!''] w)
        else (let key = bytes_hex (map (entropy ev) [drawn w ..< drawn w + 16]) in
          (Inr (), w\<lparr>drawn := drawn w + 16, console := console w @ [Out (''AES Key: '' @ key)],
                      files := (files w)(p \<mapsto> File (rs @ [[''aes_key'', ''data'', ''string'', key]]))\<rparr>)))"
  by (auto simp: put_aes_key_def io_defs open_rplus_def writerow_def generate_aes_key_def
      KEY_SIZE_BYTES_def Let_def say_def split: sum.splits dest: scan_rows_Inl)

lemma put_hardware_version_no_file:
  "\<not> is_file (files w p) \<Longrightarrow> \<exists>m. put_hardware_version p v w = (Inr (), say [Err m] w)"
  by (auto simp: put_hardware_version_def io_defs open_rplus_def say_def split: option.splits node.splits)

lemma put_aes_key_no_file:
  "\<not> is_file (files w p) \<Longrightarrow> \<exists>m. put_aes_key ev p w = (Inr (), say [Err m] w)"
  by (auto simp: put_aes_key_def io_defs open_rplus_def say_def split: option.splits node.splits)

lemma is_fileE: "is_file x \<Longrightarrow> (\<And>rs. x = Some (File rs) \<Longrightarrow> P) \<Longrightarrow> P"
  by (cases x rule: is_file.cases) auto

lemma put_hardware_version_returns: "fst (put_hardware_version p v w) = Inr ()"
proof (cases "is_file (files w p)")
  case False
  then show ?thesis using put_hardware_version_no_file[of w p v] by auto
next
  case True
  then obtain rs where "files w p = Some (File rs)" by (rule is_fileE)
  then show ?thesis by (simp add: put_hardware_version_file split: sum.splits)
qed

lemma put_aes_key_returns: "fst (put_aes_key ev p w) = Inr ()"
proof (cases "is_file (files w p)")
  case False
  then show ?thesis using put_aes_key_no_file[of w p ev] by auto
next
  case True
  then obtain rs where "files w p = Some (File rs)" by (rule is_fileE)
  then show ?thesis by (simp add: put_aes_key_file Let_def split: sum.splits)
qed

lemma put_hardware_version_invoked: "invoked (snd (put_hardware_version p v w)) = invoked w"
proof (cases "is_file (files w p)")
  case False
  then show ?thesis using put_hardware_version_no_file[of w p v] by (auto simp: say_def)
next
  case True
  then obtain rs where "files w p = Some (File rs)" by (rule is_fileE)
  then show ?thesis by (simp add: put_hardware_version_file say_def split: sum.splits)
qed

lemma put_aes_key_invoked: "invoked (snd (put_aes_key ev p w)) = invoked w"
proof (cases "is_file (files w p)")
  case False
  then show ?thesis using put_aes_key_no_file[of w p ev] by (auto simp: say_def)
next
  case True
  then obtain rs where "files w p = Some (File rs)" by (rule is_fileE)
  then show ?thesis by (simp add: put_aes_key_file Let_def say_def split: sum.splits)
qed


section \<open>Running a command\<close>

lemma execute_command_outcome:
  "cmd \<noteq> [] \<Longrightarrow> execute_command ev cmd verbose w =
     (case run_process ev cmd (files w) of
        (Exited rc out err, fs') \<Rightarrow>
          (Inr rc, say (exit_report verbose rc (universal_newlines out) (universal_newlines err))
                     ((started cmd verbose w)\<lparr>files := fs'\<rparr>))
      | (NotFound, fs') \<Rightarrow>
          (Inr 1, say [Err (''Error: Command not found: '' @ apos @ hd cmd @ apos)] (started cmd verbose w))
      | (Failed m, fs') \<Rightarrow>
          (Inr 1, say [Err (''An unexpected error occurred: '' @ m)] (started cmd verbose w)))"
  by (cases "run_process ev cmd (files w)"; cases "fst (run_process ev cmd (files w))")
     (auto simp: execute_command_def subprocess_run_def io_defs started_def exit_report_def Let_def say_def)

lemma execute_command_invoked:
  "cmd \<noteq> [] \<Longrightarrow> invoked (snd (execute_command ev cmd verbose w)) = invoked w @ [cmd]"
  by (simp add: execute_command_outcome started_def say_def split: prod.splits proc.splits)

lemma execute_command_returns: "\<exists>rc. fst (execute_command ev cmd verbose w) = Inr rc"
proof (cases "cmd = []")
  case True
  then show ?thesis by (simp add: execute_command_def io_defs)
next
  case False
  then show ?thesis by (simp add: execute_command_outcome split: prod.splits proc.splits)
qed


lemma popen_outcome:
  "popen ev cmd w =
     (case run_process ev cmd (files w) of
        (Exited rc out err, fs') \<Rightarrow> (Inr (rc, out), w\<lparr>invoked := invoked w @ [cmd], files := fs'\<rparr>)
      | (NotFound, fs') \<Rightarrow>
          (Inl (FileNotFoundError (os_message ''[Errno 2] No such file or directory'' (hd cmd))),
           w\<lparr>invoked := invoked w @ [cmd]\<rparr>)
      | (Failed m, fs') \<Rightarrow> (Inl (OtherError m), w\<lparr>invoked := invoked w @ [cmd]\<rparr>))"
  by (simp add: popen_def Let_def split: prod.splits proc.splits)

section \<open>The device's paths\<close>

lemma concat_split_from: "concat (split_from [c] cur s) = cur @ filter (\<lambda>x. x \<noteq> c) s"
  by (induction "[c]" cur s rule: split_from.induct) auto

text \<open>The MAC is stripped of surrounding white space and of every colon, and kept otherwise.\<close>

lemma mac_of_filter: "mac_of device_mac = filter (\<lambda>x. x \<noteq> CHR '':'') (strip device_mac)"
proof -
  have m: "map ((@) []) qs = qs" for qs :: "string list"
    by (induction qs) simp_all
  have "str_join [] ps = concat ps" for ps :: "string list"
    by (cases ps) (simp_all add: str_join_def m)
  then show ?thesis
    using concat_split_from[of "CHR '':''" "[]" "strip device_mac"]
    by (simp add: mac_of_def str_split_def)
qed

text \<open>For a MAC that is a plain name, the paths are the ones the specification writes.\<close>

lemma device_paths_plain:
  assumes "mac_of d \<noteq> []" and "hd (mac_of d) \<noteq> CHR ''/''" and "last (mac_of d) \<noteq> CHR ''/''"
  shows "store_path d = ''certs/'' @ mac_of d @ ''/nvs.csv''"
    and "blob_path d = ''certs/'' @ mac_of d @ ''/certs.bin''"
  using assms by (cases "mac_of d"; simp add: store_path_def blob_path_def os_path_join_def join2_def)+

lemma example_mac: "mac_of ''AA:BB:CC:DD:EE:FF'' = ''AABBCCDDEEFF''"
  by (simp add: mac_of_filter strip_def isspace_def)

lemma example_store_path: "store_path ''AA:BB:CC:DD:EE:FF'' = ''certs/AABBCCDDEEFF/nvs.csv''"
  by (simp add: store_path_def example_mac os_path_join_def join2_def)

lemma example_blob_path: "blob_path ''AA:BB:CC:DD:EE:FF'' = ''certs/AABBCCDDEEFF/certs.bin''"
  by (simp add: blob_path_def example_mac os_path_join_def join2_def)

section \<open>Generation and flashing\<close>

lemma generate_cert_bin_missing:
  "files w (store_path device_mac) = None \<Longrightarrow>
   generate_cert_bin ev device_mac version w = (Inr 1, say (missing_store_report device_mac) w)"
  by (simp add: generate_cert_bin_def store_path_def io_defs os_path_exists_def Let_def say_def
      missing_store_report_def)

lemma generate_cert_bin_present:
  assumes "files w (store_path device_mac) \<noteq> None"
  shows "generate_cert_bin ev device_mac version w =
     execute_command ev (generator_cmd device_mac) True
       (say [Out (''Generating certificate for '' @ os_path_join ''certs'' [mac_of device_mac] @ ''...'')]
         (snd (put_hardware_version (store_path device_mac) version
           (snd (put_aes_key ev (store_path device_mac)
             (say [Out (''csv: '' @ store_path device_mac)] w))))))"
proof -
  let ?sp = "store_path device_mac"
  let ?w0 = "say [Out (''csv: '' @ ?sp)] w"
  obtain w1 where a: "put_aes_key ev ?sp ?w0 = (Inr (), w1)"
    using put_aes_key_returns[of ev ?sp ?w0] by (cases "put_aes_key ev ?sp ?w0") auto
  obtain w2 where h: "put_hardware_version ?sp version w1 = (Inr (), w2)"
    using put_hardware_version_returns[of ?sp version w1]
    by (cases "put_hardware_version ?sp version w1") auto
  let ?w3 = "say [Out (''Generating certificate for '' @ os_path_join ''certs'' [mac_of device_mac] @ ''...'')] w2"
  obtain rc w4 where e: "execute_command ev (generator_cmd device_mac) True ?w3 = (Inr rc, w4)"
    using execute_command_returns[of ev "generator_cmd device_mac" True ?w3]
    by (cases "execute_command ev (generator_cmd device_mac) True ?w3") auto
  have sp: "?sp = os_path_join (os_path_join ''certs'' [mac_of device_mac]) [''nvs.csv'']"
    by (simp add: store_path_def)
  have gc: "generator_cmd device_mac = [PYTHON, ''cert_gen.py'', ''generate'',
      os_path_join (os_path_join ''certs'' [mac_of device_mac]) [''nvs.csv''],
      os_path_join (os_path_join ''certs'' [mac_of device_mac]) [''certs.bin''], ''16384'']"
    by (simp add: generator_cmd_def store_path_def blob_path_def PYTHON_def os_path_join_def)
  show ?thesis
    using assms a h e unfolding gc sp
    by (auto simp: generate_cert_bin_def io_defs os_path_exists_def Let_def say_def)
qed

lemma generate_cert_bin_invoked:
  assumes "files w (store_path device_mac) \<noteq> None"
  shows "invoked (snd (generate_cert_bin ev device_mac version w)) = invoked w @ [generator_cmd device_mac]"
  using assms
  by (simp add: generate_cert_bin_present execute_command_invoked generator_cmd_def say_def
      put_hardware_version_invoked put_aes_key_invoked)


lemma flash_nvs_missing:
  "files w (blob_path device_mac) = None \<Longrightarrow>
   flash_nvs ev device_mac port w =
     (Inr 1, say [Out (''Error: Binary file '' @ apos @ blob_path device_mac @ apos @ '' not found.'')] w)"
  by (simp add: flash_nvs_def blob_path_def io_defs os_path_exists_def Let_def say_def)





section \<open>Reading the MAC\<close>

text \<open>
  The MAC is not found when the tool exits with another code than 0, and when it exits
  with 0 and no line of its output contains \<^verbatim>\<open>MAC:\<close>.
\<close>

lemma get_mac_address_not_found:
  assumes "run_process ev (ESP_CMD @ [''--port'', port, ''read_mac'']) (files w) = (Exited rc out err, fs')"
    and "rc \<noteq> 0 \<or> grep ''MAC:'' out = []"
  shows "fst (get_mac_address ev port w) = Inr None"
  using assms
  by (auto simp: get_mac_address_def popen_outcome popen_grep_def io_defs Let_def)

lemma get_mac_address_example:
  "fst (get_mac_address
         (env_const (Exited 0 ''esptool.py v4.7.0\<newline>Chip is ESP32\<newline>MAC: aa:bb:cc:dd:ee:ff\<newline>Hard resetting\<newline>'' []))
         ''COM3'' (world_of [])) = Inr (Some ''aa:bb:cc:dd:ee:ff'')"
  by (simp add: get_mac_address_def popen_outcome popen_grep_def io_defs Let_def env_const_def world_of_def
      grep_def text_lines_def str_split_def newline_def py_index_def strip_def isspace_def)

lemma get_mac_address_effects:
  "\<exists>ls rest. console (snd (get_mac_address ev port w)) = console w @ ls \<and> Help \<notin> set ls \<and>
     invoked (snd (get_mac_address ev port w)) =
       invoked w @ (ESP_CMD @ [''--port'', port, ''read_mac'']) # rest"
  by (cases "run_process ev (ESP_CMD @ [''--port'', port, ''read_mac'']) (files w)";
      cases "fst (run_process ev (ESP_CMD @ [''--port'', port, ''read_mac'']) (files w))")
     (auto simp: get_mac_address_def popen_outcome popen_grep_def io_defs Let_def py_index_def)

section \<open>The branches of \<^verbatim>\<open>main\<close>\<close>

lemma main_selected:
  "main ev a w =
     perform ev a (selected (truthy (args_port a)) (truthy (args_mac a)) (truthy (args_hv a)) (args_generate a))
       (say (banner a) w)"
proof -
  have l: "last files_to_create = ''nvs.csv''"
    by (simp add: files_to_create_def)
  have b: "main ev a w =
     (if truthy (args_port a) \<and> truthy (args_mac a) \<and> truthy (args_hv a) then perform ev a Generate_flash_explicit
      else if truthy (args_port a) \<and> truthy (args_hv a) then perform ev a Generate_flash_auto
      else if args_generate a \<and> truthy (args_mac a) then perform ev a Scaffold_explicit
      else if args_generate a \<and> truthy (args_port a) then perform ev a Scaffold_auto
      else if truthy (args_port a) then perform ev a Read_mac_only
      else perform ev a Print_help) (say (banner a) w)"
    unfolding main_def perform_def l
    by (simp add: io_bind_def print_def say_def banner_def)
  show ?thesis
    unfolding b
    by (cases "truthy (args_port a)"; cases "truthy (args_mac a)"; cases "truthy (args_hv a)";
        cases "args_generate a") simp_all
qed

lemma read_mac_only_effects:
  "\<exists>ls rest. console (snd (perform ev a Read_mac_only w)) = console w @ ls \<and> Help \<notin> set ls \<and>
     invoked (snd (perform ev a Read_mac_only w)) =
       invoked w @ (ESP_CMD @ [''--port'', val (args_port a), ''read_mac'']) # rest"
  using get_mac_address_effects[of ev "val (args_port a)" w]
  by (cases "get_mac_address ev (val (args_port a)) w"; cases "fst (get_mac_address ev (val (args_port a)) w)")
     (auto simp: perform_def io_bind_def io_return_def)


section \<open>Scaffolding\<close>

lemma mkdirs_apply:
  "foldl (\<lambda>f q. f(q \<mapsto> Dir)) fs qs k = (if k \<in> set qs then Some Dir else fs k)"
  by (induction qs arbitrary: fs) auto

lemma ancestors_from_length:
  "q \<in> set (ancestors_from pre s) \<Longrightarrow> length q < length pre + length s"
  by (induction pre s rule: ancestors_from.induct) (auto split: if_splits)

lemma ancestors_from_no_slash: "CHR ''/'' \<notin> set s \<Longrightarrow> ancestors_from pre s = []"
  by (induction pre s rule: ancestors_from.induct) auto

lemma ancestors_from_append:
  "ancestors_from pre (s @ t) = ancestors_from pre s @ ancestors_from (pre @ s) t"
  by (induction pre s rule: ancestors_from.induct) auto

lemma join2_longer:
  "f \<noteq> [] \<Longrightarrow> CHR ''/'' \<notin> set f \<Longrightarrow> length dir < length (join2 dir f)"
  by (cases f) (auto simp: join2_def)

lemma ancestors_join2:
  assumes "f \<noteq> []" and "CHR ''/'' \<notin> set f"
  shows "set (ancestors (join2 dir f)) \<subseteq> set (ancestors dir @ [dir])"
proof -
  have nf: "take 1 f \<noteq> ''/''" using assms by (cases f) auto
  show ?thesis
  proof (cases "dir = [] \<or> last dir = CHR ''/''")
    case True
    then have "join2 dir f = dir @ f" using nf by (simp add: join2_def)
    then show ?thesis
      using assms by (auto simp: ancestors_def ancestors_from_append ancestors_from_no_slash)
  next
    case False
    then have "join2 dir f = dir @ ''/'' @ f" using nf by (simp add: join2_def)
    then show ?thesis
      using assms False by (auto simp: ancestors_def ancestors_from_append ancestors_from_no_slash)
  qed
qed

lemma join2_not_dir:
  assumes "f \<noteq> []" and "CHR ''/'' \<notin> set f"
  shows "join2 dir f \<notin> set (ancestors dir @ [dir])"
proof
  assume "join2 dir f \<in> set (ancestors dir @ [dir])"
  then have "length (join2 dir f) \<le> length dir"
    using ancestors_from_length[of "join2 dir f" "[]" dir] by (auto simp: ancestors_def)
  then show False using join2_longer[OF assms, of dir] by simp
qed

lemma os_makedirs_ok:
  assumes "\<forall>q\<in>set (ancestors dir @ [dir]). \<not> is_file (files w q)"
  shows "os_makedirs dir w =
     (Inr (), w\<lparr>files := foldl (\<lambda>f q. f(q \<mapsto> Dir)) (files w) (ancestors dir @ [dir])\<rparr>)"
  using assms by (auto simp: os_makedirs_def list_ex_iff)

lemma open_w_ok:
  assumes "\<forall>q\<in>set (ancestors p). files w q = Some Dir" and "files w p \<noteq> Some Dir"
  shows "open_w p w = (Inr (), w\<lparr>files := (files w)(p \<mapsto> File [])\<rparr>)"
proof -
  have "\<not> list_ex (\<lambda>q. is_file (files w q)) (ancestors p)"
    using assms(1) by (auto simp: list_ex_iff)
  moreover have "\<not> list_ex (\<lambda>q. files w q = None) (ancestors p)"
    using assms(1) by (auto simp: list_ex_iff)
  ultimately show ?thesis using assms(2) by (simp add: open_w_def)
qed

lemma create_file_ok:
  assumes "\<forall>q\<in>set (ancestors (os_path_join dir [f])). files w q = Some Dir"
    and "files w (os_path_join dir [f]) \<noteq> Some Dir"
  shows "create_file dir f ok w =
     (Inr ok, w\<lparr>files := (files w)(os_path_join dir [f] \<mapsto> File []),
                console := console w @ [Out (''  - Created empty file: '' @ apos @ os_path_join dir [f] @ apos)]\<rparr>)"
  by (simp add: create_file_def Let_def io_try_def io_bind_def open_w_ok[OF assms] print_def io_return_def)

lemma create_files_ok:
  assumes "\<forall>f\<in>set fs. f \<noteq> [] \<and> CHR ''/'' \<notin> set f"
    and "\<forall>q\<in>set (ancestors dir @ [dir]). files w q = Some Dir"
    and "\<forall>f\<in>set fs. files w (os_path_join dir [f]) \<noteq> Some Dir"
  shows "\<exists>w'. create_files dir fs ok w = (Inr ok, w') \<and> invoked w' = invoked w \<and>
           files w' = foldl (\<lambda>m f. m(os_path_join dir [f] \<mapsto> File [])) (files w) fs"
  using assms
proof (induction fs arbitrary: w)
  case Nil
  then show ?case by simp
next
  case (Cons f fs)
  let ?p = "os_path_join dir [f]"
  let ?w1 = "w\<lparr>files := (files w)(?p \<mapsto> File []),
                console := console w @ [Out (''  - Created empty file: '' @ apos @ ?p @ apos)]\<rparr>"
  have f: "f \<noteq> []" "CHR ''/'' \<notin> set f" using Cons.prems(1) by auto
  have anc: "\<forall>q\<in>set (ancestors ?p). files w q = Some Dir"
    using ancestors_join2[OF f, of dir] Cons.prems(2) by (auto simp: os_path_join_def)
  have c: "create_file dir f ok w = (Inr ok, ?w1)"
    using Cons.prems(3) by (intro create_file_ok anc) simp
  have d: "\<forall>q\<in>set (ancestors dir @ [dir]). files ?w1 q = Some Dir"
    using Cons.prems(2,3) by auto
  have e: "\<forall>g\<in>set fs. files ?w1 (os_path_join dir [g]) \<noteq> Some Dir"
    using Cons.prems(3) by auto
  have p1: "\<forall>f\<in>set fs. f \<noteq> [] \<and> CHR ''/'' \<notin> set f"
    using Cons.prems(1) by simp
  from Cons.IH[OF p1 d e]
  obtain w' where "create_files dir fs ok ?w1 = (Inr ok, w')" "invoked w' = invoked ?w1"
    "files w' = foldl (\<lambda>m f. m(os_path_join dir [f] \<mapsto> File [])) (files ?w1) fs"
    by blast
  then show ?case by (simp add: c del: fun_upd_apply)
qed

lemma write_rows_ok:
  assumes "\<forall>q\<in>set (ancestors p). files w q = Some Dir" and "files w p \<noteq> Some Dir"
  shows "write_rows p rs w = (Inr (), w\<lparr>files := (files w)(p \<mapsto> File rs)\<rparr>)"
  by (simp add: write_rows_def io_bind_def open_w_ok[OF assms])

lemma scaffold_ok:
  assumes H1: "\<forall>q\<in>set (ancestors (device_dir d) @ [device_dir d]). \<not> is_file (files w q)"
    and H2: "\<forall>f\<in>set files_to_create. files w (os_path_join (device_dir d) [f]) \<noteq> Some Dir"
  shows "\<exists>w'. scaffold d w = (Inr True, w') \<and> files w' = scaffolded (device_dir d) (files w) \<and>
           invoked w' = invoked w"
proof -
  let ?dir = "device_dir d"
  let ?dirs = "ancestors ?dir @ [?dir]"
  let ?w1 = "w\<lparr>files := foldl (\<lambda>f q. f(q \<mapsto> Dir)) (files w) ?dirs\<rparr>"
  let ?w1' = "say [Out (''Successfully ensured folder exists: '' @ apos @ ?dir @ apos)] ?w1"
  have names: "\<forall>f\<in>set files_to_create. f \<noteq> [] \<and> CHR ''/'' \<notin> set f"
    by (simp add: files_to_create_def)
  have m: "os_makedirs ?dir w = (Inr (), ?w1)"
    by (rule os_makedirs_ok[OF H1])
  have d1: "\<forall>q\<in>set ?dirs. files ?w1' q = Some Dir"
    by (simp add: say_def mkdirs_apply)
  have f1: "\<forall>f\<in>set files_to_create. files ?w1' (os_path_join ?dir [f]) \<noteq> Some Dir"
  proof
    fix f assume f: "f \<in> set files_to_create"
    then have "os_path_join ?dir [f] \<notin> set ?dirs"
      using names join2_not_dir[of f ?dir] by (simp add: os_path_join_def)
    then show "files ?w1' (os_path_join ?dir [f]) \<noteq> Some Dir"
      using H2 f by (simp add: say_def mkdirs_apply)
  qed
  obtain w2 where c: "create_files ?dir files_to_create True ?w1' = (Inr True, w2)"
    and i2: "invoked w2 = invoked ?w1'"
    and f2: "files w2 = foldl (\<lambda>m f. m(os_path_join ?dir [f] \<mapsto> File [])) (files ?w1') files_to_create"
    using create_files_ok[OF names d1 f1, of True] by blast
  let ?p = "os_path_join ?dir [''nvs.csv'']"
  have notdir: "os_path_join ?dir [f] \<notin> set ?dirs" if "f \<in> set files_to_create" for f
    using that names join2_not_dir[of f ?dir] by (simp add: os_path_join_def)
  have d2: "\<forall>q\<in>set (ancestors ?p). files w2 q = Some Dir"
  proof
    fix q assume "q \<in> set (ancestors ?p)"
    then have q: "q \<in> set ?dirs"
      using ancestors_join2[of "''nvs.csv''" ?dir] by (auto simp: os_path_join_def)
    then have "q \<noteq> os_path_join ?dir [f]" if "f \<in> set files_to_create" for f
      using notdir[OF that] by auto
    then have "files w2 q = files ?w1' q"
      by (simp add: f2 files_to_create_def)
    moreover have "files ?w1' q = Some Dir"
      using q d1 by blast
    ultimately show "files w2 q = Some Dir"
      by simp
  qed
  have p2: "files w2 ?p \<noteq> Some Dir"
    by (simp add: f2 files_to_create_def)
  have wr: "write_rows ?p (nvs_rows ?dir) w2 = (Inr (), w2\<lparr>files := (files w2)(?p \<mapsto> File (nvs_rows ?dir))\<rparr>)"
    by (rule write_rows_ok[OF d2 p2])
  let ?w3 = "say [Out (''Written '' @ apos @ ''nvs.csv'' @ apos)]
               (w2\<lparr>files := (files w2)(?p \<mapsto> File (nvs_rows ?dir))\<rparr>)"
  have l: "last files_to_create = ''nvs.csv''"
    by (simp add: files_to_create_def)
  have mem: "''nvs.csv'' \<in> set files_to_create"
    by (simp add: files_to_create_def)
  have run: "scaffold d w = (Inr True, ?w3)"
    unfolding scaffold_def create_folder_and_files_def l
    using m c wr mem
    by (simp add: Let_def io_bind_def io_try_def io_when_def io_return_def print_def truthy_def val_def
        device_dir_def say_def)
  have fin: "files ?w3 = scaffolded ?dir (files w)"
  proof
    fix k
    have "os_path_join ?dir [f] \<notin> set ?dirs" if "f \<in> set files_to_create" for f
      by (rule notdir[OF that])
    then have nd: "?p \<notin> set ?dirs" "os_path_join ?dir [''private.pem.key''] \<notin> set ?dirs"
      "os_path_join ?dir [''device.pem.crt''] \<notin> set ?dirs"
      by (simp_all add: files_to_create_def)
    show "files ?w3 k = scaffolded ?dir (files w) k"
      by (simp add: say_def f2 files_to_create_def scaffolded_def mkdirs_apply)
  qed
  show ?thesis
    using run fin i2 by (simp add: say_def)
qed

lemma join2_inj:
  "take 1 f \<noteq> ''/'' \<Longrightarrow> take 1 g \<noteq> ''/'' \<Longrightarrow> join2 dir f = join2 dir g \<longleftrightarrow> f = g"
  by (auto simp: join2_def)

lemma scaffolded_files:
  "scaffolded dir fs (os_path_join dir [''nvs.csv'']) = Some (File (nvs_rows dir))"
  "scaffolded dir fs (os_path_join dir [''private.pem.key'']) = Some (File [])"
  "scaffolded dir fs (os_path_join dir [''device.pem.crt'']) = Some (File [])"
  by (simp_all add: scaffolded_def os_path_join_def join2_inj)

lemma scaffolded_dirs:
  assumes "q \<in> set (ancestors dir @ [dir])"
  shows "scaffolded dir fs q = Some Dir"
proof -
  have "q \<noteq> join2 dir f" if "f \<noteq> []" "CHR ''/'' \<notin> set f" for f
    using assms join2_not_dir[OF that, of dir] by auto
  then have "q \<noteq> join2 dir ''nvs.csv''" "q \<noteq> join2 dir ''private.pem.key''" "q \<noteq> join2 dir ''device.pem.crt''"
    by simp_all
  then show ?thesis using assms by (simp add: scaffolded_def os_path_join_def)
qed

lemma scaffolded_twice: "scaffolded dir (scaffolded dir fs) = scaffolded dir fs"
  by (rule ext) (simp add: scaffolded_def)

section \<open>The claims\<close>

text \<open>
  C1, as claimed: four flag combinations select the four workflows and every other one
  prints the help text. It fails for \<^verbatim>\<open>--port\<close> alone: \<^verbatim>\<open>main\<close> has a fifth branch,
  which reads the MAC from the device and prints no help.
\<close>

theorem port_alone_reads_mac:
  "Help \<notin> set (console (snd (main env_tools
      \<lparr>args_port = Some ''COM3'', args_mac = None, args_hv = None, args_generate = False\<rparr> (world_of [])))) \<and>
   invoked (snd (main env_tools
      \<lparr>args_port = Some ''COM3'', args_mac = None, args_hv = None, args_generate = False\<rparr> (world_of []))) =
     [[''python3'', ''-m'', ''esptool'', ''--port'', ''COM3'', ''read_mac''], [''grep'', ''MAC:'']]"
  by (simp add: main_def get_mac_address_def popen_def popen_grep_def io_defs truthy_def val_def
      env_tools_def world_of_def ESP_CMD_def PYTHON_def bool_str_def py_index_def
      grep_def text_lines_def str_split_def newline_def strip_def isspace_def Let_def)

text \<open>
  C1, amended: after printing its arguments, \<^verbatim>\<open>main\<close> does what the table \<open>selected\<close>
  gives for the flags: generate-then-flash with the given MAC for port, mac and hv;
  generate-then-flash with the MAC read from the device for port and hv without mac;
  scaffolding with the given MAC for generate and mac (unless port and hv are both given);
  scaffolding with the MAC read from the device for generate and port alone; reading the
  MAC and nothing else for port without hv and generate; the help text, and nothing else,
  for the remaining combinations. Reading the MAC runs the tool's \<^verbatim>\<open>read_mac\<close> and prints
  no help.
\<close>

theorem flags_select_branch:
  "main ev a w =
     perform ev a (selected (truthy (args_port a)) (truthy (args_mac a)) (truthy (args_hv a)) (args_generate a))
       (say (banner a) w) \<and>
   perform ev a Print_help (say (banner a) w) = (Inr (), say (banner a @ [Help]) w) \<and>
   (\<exists>ls rest. console (snd (perform ev a Read_mac_only (say (banner a) w))) = console w @ banner a @ ls \<and>
      Help \<notin> set ls \<and>
      invoked (snd (perform ev a Read_mac_only (say (banner a) w))) =
        invoked w @ [''python3'', ''-m'', ''esptool'', ''--port'', val (args_port a), ''read_mac''] # rest)"
  using read_mac_only_effects[of ev a "say (banner a) w"]
  by (simp add: main_selected) (auto simp: perform_def say_def ESP_CMD_def PYTHON_def)




text \<open>
  C3. When the store already holds a row whose first column is \<open>hv\<close>, the hardware-version
  insertion changes no file, and the store keeps its rows; likewise for \<open>aes_key\<close> and
  the AES-key insertion.
\<close>

theorem existing_key_is_noop:
  assumes "files w p = Some (File rs)"
  shows "(has_key ''hv'' rs \<longrightarrow>
            files (snd (put_hardware_version p version w)) = files w \<and>
            files (snd (put_hardware_version p version w)) p = Some (File rs)) \<and>
         (has_key ''aes_key'' rs \<longrightarrow>
            files (snd (put_aes_key ev p w)) = files w \<and>
            files (snd (put_aes_key ev p w)) p = Some (File rs))"
  using assms scan_rows_has_key[of "''hv''" rs] scan_rows_has_key[of "''aes_key''" rs]
  by (auto simp: put_hardware_version_file put_aes_key_file say_def split: sum.splits)

theorem existing_key_is_noop_witness:
  "files (world_with_store provisioned_rows) ''certs/AABBCCDDEEFF/nvs.csv'' = Some (File provisioned_rows) \<and>
   has_key ''hv'' provisioned_rows \<and>
   has_key ''aes_key'' provisioned_rows \<and>
   files (snd (put_hardware_version ''certs/AABBCCDDEEFF/nvs.csv'' ''2.0'' (world_with_store provisioned_rows)))
       ''certs/AABBCCDDEEFF/nvs.csv'' = Some (File provisioned_rows) \<and>
   files (snd (put_aes_key (env_const NotFound) ''certs/AABBCCDDEEFF/nvs.csv'' (world_with_store provisioned_rows)))
       ''certs/AABBCCDDEEFF/nvs.csv'' = Some (File provisioned_rows)"
  using existing_key_is_noop[of "world_with_store provisioned_rows" "''certs/AABBCCDDEEFF/nvs.csv''"
      provisioned_rows "''2.0''" "env_const NotFound"]
  by (simp add: world_with_store_def world_of_def has_key_def provisioned_rows_def scaffold_rows_def)




text \<open>
  C5. When the store \<^verbatim>\<open>certs/<mac>/nvs.csv\<close> of the device does not exist,
  \<^verbatim>\<open>generate_cert_bin\<close> returns 1, prints the error and the hint to generate the device
  folder first, starts no process and leaves every file as it was.
\<close>

theorem missing_store_refuses:
  assumes "files w (store_path device_mac) = None"
  shows "fst (generate_cert_bin ev device_mac version w) = Inr 1 \<and>
         snd (generate_cert_bin ev device_mac version w) = say (missing_store_report device_mac) w \<and>
         Out ''Suggestion: Generate device folder first'' \<in> set (missing_store_report device_mac) \<and>
         invoked (snd (generate_cert_bin ev device_mac version w)) = invoked w \<and>
         files (snd (generate_cert_bin ev device_mac version w)) = files w"
  using assms by (simp add: generate_cert_bin_missing say_def missing_store_report_def)

theorem missing_store_refuses_witness:
  "store_path ''AA:BB:CC:DD:EE:FF'' = ''certs/AABBCCDDEEFF/nvs.csv'' \<and>
   files (world_of []) (store_path ''AA:BB:CC:DD:EE:FF'') = None \<and>
   fst (generate_cert_bin (env_const (Exited 0 [] [])) ''AA:BB:CC:DD:EE:FF'' ''1.0'' (world_of [])) = Inr 1 \<and>
   invoked (snd (generate_cert_bin (env_const (Exited 0 [] [])) ''AA:BB:CC:DD:EE:FF'' ''1.0'' (world_of []))) = []"
  using missing_store_refuses[of "world_of []" "''AA:BB:CC:DD:EE:FF''" "env_const (Exited 0 [] [])" "''1.0''"]
  by (simp add: world_of_def example_store_path say_def)

text \<open>
  C6. When the blob \<^verbatim>\<open>certs/<mac>/certs.bin\<close> of the device does not exist,
  \<^verbatim>\<open>flash_nvs\<close> returns 1, prints the error, starts no process and leaves every file as
  it was.
\<close>

theorem missing_blob_refuses:
  assumes "files w (blob_path device_mac) = None"
  shows "fst (flash_nvs ev device_mac port w) = Inr 1 \<and>
         snd (flash_nvs ev device_mac port w) =
           say [Out (''Error: Binary file '' @ apos @ blob_path device_mac @ apos @ '' not found.'')] w \<and>
         invoked (snd (flash_nvs ev device_mac port w)) = invoked w \<and>
         files (snd (flash_nvs ev device_mac port w)) = files w"
  using assms by (simp add: flash_nvs_missing say_def)

theorem missing_blob_refuses_witness:
  "blob_path ''AA:BB:CC:DD:EE:FF'' = ''certs/AABBCCDDEEFF/certs.bin'' \<and>
   files (world_with_store provisioned_rows) (blob_path ''AA:BB:CC:DD:EE:FF'') = None \<and>
   fst (flash_nvs (env_const (Exited 0 [] [])) ''AA:BB:CC:DD:EE:FF'' ''COM3''
          (world_with_store provisioned_rows)) = Inr 1 \<and>
   invoked (snd (flash_nvs (env_const (Exited 0 [] [])) ''AA:BB:CC:DD:EE:FF'' ''COM3''
          (world_with_store provisioned_rows))) = []"
  using missing_blob_refuses[of "world_with_store provisioned_rows" "''AA:BB:CC:DD:EE:FF''"
      "env_const (Exited 0 [] [])" "''COM3''"]
  by (simp add: world_with_store_def world_of_def example_blob_path say_def)



text \<open>
  C8. The claim has the MAC discovery return the not-found value whenever the marker
  \<^verbatim>\<open>"MAC: "\<close> is absent. The filter looks for \<^verbatim>\<open>MAC:\<close> and the split for \<^verbatim>\<open>"MAC: "\<close>:
  on an output with \<^verbatim>\<open>MAC:\<close> and no space after it, \<^verbatim>\<open>split(...)[1]\<close> raises
  \<^verbatim>\<open>IndexError\<close>, which nothing catches.
\<close>

theorem mac_marker_without_space_raises:
  "fst (get_mac_address (env_const (Exited 0 ''MAC:aa:bb:cc:dd:ee:ff\<newline>'' [])) ''COM3'' (world_of [])) =
     Inl (IndexError ''list index out of range'')"
  by (simp add: get_mac_address_def popen_outcome popen_grep_def io_defs Let_def env_const_def world_of_def
      grep_def text_lines_def str_split_def newline_def py_index_def)

text \<open>
  C9. Let the device's folder and the directories above it be free or directories, and let
  none of the three file names in it be taken by a directory. Then the scaffolding returns
  \<open>True\<close>; afterwards the folder is a directory, \<^verbatim>\<open>device.pem.crt\<close> and
  \<^verbatim>\<open>private.pem.key\<close> are empty files, and \<^verbatim>\<open>nvs.csv\<close> holds the header row and the
  three rows \<open>certs\<close>, \<open>priv_key\<close> and \<open>certificate\<close>, the last two with the paths of the
  other two files. A second run also returns \<open>True\<close> and leaves the file system as the
  first run left it.
\<close>

theorem scaffolding_is_idempotent:
  assumes "\<forall>q\<in>set (ancestors (device_dir d) @ [device_dir d]). \<not> is_file (files w q)"
    and "\<forall>f\<in>set files_to_create. files w (os_path_join (device_dir d) [f]) \<noteq> Some Dir"
  shows "fst (scaffold d w) = Inr True \<and>
         files (snd (scaffold d w)) (device_dir d) = Some Dir \<and>
         files (snd (scaffold d w)) (os_path_join (device_dir d) [''device.pem.crt'']) = Some (File []) \<and>
         files (snd (scaffold d w)) (os_path_join (device_dir d) [''private.pem.key'']) = Some (File []) \<and>
         files (snd (scaffold d w)) (os_path_join (device_dir d) [''nvs.csv'']) =
           Some (File [[''key'', ''type'', ''encoding'', ''value''],
                       [''certs'', ''namespace'', [], []],
                       [''priv_key'', ''file'', ''string'', os_path_join (device_dir d) [''private.pem.key'']],
                       [''certificate'', ''file'', ''string'', os_path_join (device_dir d) [''device.pem.crt'']]]) \<and>
         fst (scaffold d (snd (scaffold d w))) = Inr True \<and>
         files (snd (scaffold d (snd (scaffold d w)))) = files (snd (scaffold d w))"
proof -
  let ?dir = "device_dir d"
  obtain w1 where r1: "scaffold d w = (Inr True, w1)" and f1: "files w1 = scaffolded ?dir (files w)"
    using scaffold_ok[OF assms] by blast
  have h1: "\<forall>q\<in>set (ancestors ?dir @ [?dir]). \<not> is_file (files w1 q)"
    by (simp add: f1 scaffolded_dirs)
  have h2: "\<forall>f\<in>set files_to_create. files w1 (os_path_join ?dir [f]) \<noteq> Some Dir"
    by (simp add: f1 files_to_create_def scaffolded_files)
  obtain w2 where r2: "scaffold d w1 = (Inr True, w2)" and f2: "files w2 = scaffolded ?dir (files w1)"
    using scaffold_ok[OF h1 h2] by blast
  show ?thesis
    by (simp add: r1 r2 f1 f2 scaffolded_twice scaffolded_files scaffolded_dirs nvs_rows_def)
qed

theorem scaffolding_is_idempotent_witness:
  "\<not> is_file (files (world_with_store provisioned_rows) ''certs'') \<and>
   \<not> is_file (files (world_with_store provisioned_rows) ''certs/AABBCCDDEEFF'') \<and>
   files (world_with_store provisioned_rows) ''certs/AABBCCDDEEFF/device.pem.crt'' \<noteq> Some Dir \<and>
   files (world_with_store provisioned_rows) ''certs/AABBCCDDEEFF/private.pem.key'' \<noteq> Some Dir \<and>
   files (world_with_store provisioned_rows) ''certs/AABBCCDDEEFF/nvs.csv'' \<noteq> Some Dir \<and>
   fst (scaffold ''AA:BB:CC:DD:EE:FF'' (world_with_store provisioned_rows)) = Inr True \<and>
   files (snd (scaffold ''AA:BB:CC:DD:EE:FF'' (world_with_store provisioned_rows))) ''certs/AABBCCDDEEFF/nvs.csv''
     = Some (File scaffold_rows) \<and>
   files (snd (scaffold ''AA:BB:CC:DD:EE:FF'' (snd (scaffold ''AA:BB:CC:DD:EE:FF'' (world_with_store provisioned_rows)))))
     = files (snd (scaffold ''AA:BB:CC:DD:EE:FF'' (world_with_store provisioned_rows)))"
proof -
  have dir: "device_dir ''AA:BB:CC:DD:EE:FF'' = ''certs/AABBCCDDEEFF''"
    by (simp add: device_dir_def example_mac os_path_join_def join2_def)
  have anc: "ancestors ''certs/AABBCCDDEEFF'' = [''certs'']"
    by (simp add: ancestors_def)
  have h1: "\<forall>q\<in>set (ancestors (device_dir ''AA:BB:CC:DD:EE:FF'') @ [device_dir ''AA:BB:CC:DD:EE:FF'']).
      \<not> is_file (files (world_with_store provisioned_rows) q)"
    by (simp add: dir anc world_with_store_def world_of_def)
  have h2: "\<forall>f\<in>set files_to_create.
      files (world_with_store provisioned_rows) (os_path_join (device_dir ''AA:BB:CC:DD:EE:FF'') [f]) \<noteq> Some Dir"
    by (simp add: dir files_to_create_def os_path_join_def join2_def world_with_store_def world_of_def)
  show ?thesis
    using scaffolding_is_idempotent[OF h1 h2] h1 h2
    by (simp add: dir anc files_to_create_def os_path_join_def join2_def scaffold_rows_def)
qed

text \<open>
  C10. Neither insertion ever raises. An error at opening the store (the path is no regular
  file) and the \<^verbatim>\<open>IndexError\<close> at a row without columns, met before a row with the
  key, are printed on the error stream and the file is left as it was. Hence, once the
  store exists, \<^verbatim>\<open>generate_cert_bin\<close> always starts the generator, and nothing else.
\<close>

theorem insertion_errors_are_swallowed:
  "fst (put_aes_key ev p w) = Inr () \<and>
   fst (put_hardware_version p version w) = Inr () \<and>
   (\<not> is_file (files w p) \<longrightarrow>
      (\<exists>m. put_aes_key ev p w = (Inr (), say [Err m] w)) \<and>
      (\<exists>m. put_hardware_version p version w = (Inr (), say [Err m] w))) \<and>
   (files w p = Some (File (rs @ [] # rs')) \<and> \<not> has_key ''aes_key'' rs \<longrightarrow>
      put_aes_key ev p w = (Inr (), say [Err ''An unexpected error occurred: list index out of range''] w)) \<and>
   (files w p = Some (File (rs @ [] # rs')) \<and> \<not> has_key ''hv'' rs \<longrightarrow>
      put_hardware_version p version w =
        (Inr (), say [Err ''An unexpected error occurred: list index out of range''] w)) \<and>
   (files w (store_path device_mac) \<noteq> None \<longrightarrow>
      invoked (snd (generate_cert_bin ev device_mac version w)) = invoked w @ [generator_cmd device_mac])"
  using put_aes_key_no_file[of w p ev] put_hardware_version_no_file[of w p version]
  by (auto simp: put_aes_key_returns put_hardware_version_returns generate_cert_bin_invoked
      put_aes_key_file put_hardware_version_file scan_rows_blank)

theorem insertion_errors_are_swallowed_witness:
  "\<not> is_file (files (world_with_store [[]]) ''certs'') \<and>
   (\<exists>m. put_aes_key (env_const NotFound) ''certs'' (world_with_store [[]]) =
          (Inr (), say [Err m] (world_with_store [[]]))) \<and>
   (\<exists>m. put_hardware_version ''certs'' ''1.0'' (world_with_store [[]]) =
          (Inr (), say [Err m] (world_with_store [[]]))) \<and>
   files (world_with_store [[]]) ''certs/AABBCCDDEEFF/nvs.csv'' = Some (File ([] @ [] # [])) \<and>
   \<not> has_key ''aes_key'' [] \<and> \<not> has_key ''hv'' [] \<and>
   put_aes_key (env_const NotFound) ''certs/AABBCCDDEEFF/nvs.csv'' (world_with_store [[]]) =
     (Inr (), say [Err ''An unexpected error occurred: list index out of range''] (world_with_store [[]])) \<and>
   put_hardware_version ''certs/AABBCCDDEEFF/nvs.csv'' ''1.0'' (world_with_store [[]]) =
     (Inr (), say [Err ''An unexpected error occurred: list index out of range''] (world_with_store [[]])) \<and>
   files (world_with_store [[]]) (store_path ''AA:BB:CC:DD:EE:FF'') \<noteq> None \<and>
   invoked (snd (generate_cert_bin (env_const NotFound) ''AA:BB:CC:DD:EE:FF'' ''1.0'' (world_with_store [[]]))) =
     [[''python3'', ''cert_gen.py'', ''generate'', ''certs/AABBCCDDEEFF/nvs.csv'',
       ''certs/AABBCCDDEEFF/certs.bin'', ''16384'']]"
proof -
  have d: "\<not> is_file (files (world_with_store [[]]) ''certs'')"
    by (simp add: world_with_store_def world_of_def)
  have s: "files (world_with_store [[]]) ''certs/AABBCCDDEEFF/nvs.csv'' = Some (File ([] @ [] # []))"
    by (simp add: world_with_store_def world_of_def)
  have k: "\<not> has_key ''aes_key'' []" "\<not> has_key ''hv'' []"
    by (simp_all add: has_key_def)
  have e: "files (world_with_store [[]]) (store_path ''AA:BB:CC:DD:EE:FF'') \<noteq> None"
    by (simp add: example_store_path world_with_store_def world_of_def)
  have i: "invoked (world_with_store [[]]) = []"
    by (simp add: world_with_store_def world_of_def)
  show ?thesis
    using insertion_errors_are_swallowed[of "env_const NotFound" "''certs''" "world_with_store [[]]" "''1.0''"
        "[]" "[]" "''AA:BB:CC:DD:EE:FF''"]
      insertion_errors_are_swallowed[of "env_const NotFound" "''certs/AABBCCDDEEFF/nvs.csv''"
        "world_with_store [[]]" "''1.0''" "[]" "[]" "''AA:BB:CC:DD:EE:FF''"]
      d s k e
    by (simp add: i generator_cmd_def example_store_path example_blob_path)
qed

end
